theory Spec2Isabelle
  imports Main "HOL-Library.Sublist" "HOL-Library.AList"
begin

section \<open>Articles\<close>

text \<open>
  The pipeline passes articles around as dictionaries with the five keys
  \<open>title\<close>, \<open>url\<close>, \<open>content\<close>, \<open>publish_date\<close> and \<open>source\<close>, every value
  a string (\<open>get_ap_news_with_content\<close> builds them with a dictionary literal).
\<close>

record raw_article =
  title :: string
  url :: string
  content :: string
  publish_date :: string
  source :: string

section \<open>Deduplication (\<open>NewsSummaryPipeline.deduplicate_news\<close>)\<close>

text \<open>\<open>news['title'][:50]\<close>: a Python slice never raises, a shorter title is its own key.\<close>

definition title_key :: "raw_article \<Rightarrow> string" where
  "title_key news = take 50 (title news)"

text \<open>
  The \<open>for\<close> loop of \<open>deduplicate_news\<close>, with its two accumulators: the list
  \<open>unique_news\<close> (appended to at the end) and the set \<open>seen_titles\<close>.
\<close>

fun dedup_loop :: "raw_article list \<Rightarrow> raw_article list \<Rightarrow> string set \<Rightarrow> raw_article list" where
  "dedup_loop [] unique_news seen_titles = unique_news"
| "dedup_loop (news # rest) unique_news seen_titles =
     (if title_key news \<notin> seen_titles
      then dedup_loop rest (unique_news @ [news]) (insert (title_key news) seen_titles)
      else dedup_loop rest unique_news seen_titles)"

definition deduplicate_news :: "raw_article list \<Rightarrow> raw_article list" where
  "deduplicate_news news_list = dedup_loop news_list [] {}"

text \<open>
  What the loop still appends when it stands before \<open>xs\<close> with the keys \<open>seen\<close>
  already met. Only the proofs use it.
\<close>

fun fresh :: "string set \<Rightarrow> raw_article list \<Rightarrow> raw_article list" where
  "fresh seen [] = []"
| "fresh seen (x # xs) =
     (if title_key x \<in> seen then fresh seen xs else x # fresh (insert (title_key x) seen) xs)"

section \<open>Python values, exceptions and console output\<close>

text \<open>
  What \<open>json.loads\<close> can return: \<open>None\<close>, a bool, an int, a float, a str, a list
  or a dict with string keys. A dict keeps its keys in insertion order, so it is an
  association list; \<open>json.loads\<close> never builds one with a repeated key. No operation
  of the program looks inside a float, which is kept as the decimal text it was read
  from. A \<open>char\<close> stands for one character of a Python \<open>str\<close>.
\<close>

datatype pyval =
    PNone
  | PBool bool
  | PInt int
  | PFloat string
  | PStr string
  | PList "pyval list"
  | PDict "(string \<times> pyval) list"

text \<open>
  The exceptions that occur. \<open>Failure name\<close> is any other exception, raised by a
  collaborator outside the repository (browser, network, model service, template
  engine, file system) and told apart by its name only.
\<close>

datatype error = JSONDecodeError | TypeError | KeyError | Failure string

text \<open>
  What the program prints. \<open>Say\<close> carries a message whose text is ASCII, as
  printed. \<open>Error_report e\<close> is line 98, \<open>Error:\<close> followed by \<open>str(e)\<close>. The other
  messages are Chinese text in the source and are named by their place:
  \<open>Cnn_begin\<close> (line 58), \<open>Cnn_count n\<close> (line 60, with the number of articles),
  \<open>Topic_begin topic\<close> (line 124), \<open>Step_fetch\<close> (127), \<open>Step_dedup\<close> (131),
  \<open>Step_extract\<close> (135), \<open>Step_html\<close> (139) and \<open>Finished output_file\<close> (146).
  \<open>No_news_found name\<close> is the line by which a fetcher says that its source, \<open>name\<close>,
  has no news on the topic (line 96 of \<open>crawl_apnews.py\<close>, for \<open>AP News\<close>).
\<close>

datatype printed =
    Say string
  | Error_report error
  | Cnn_begin
  | Cnn_count nat
  | Topic_begin string
  | Step_fetch
  | Step_dedup
  | Step_extract
  | Step_html
  | Finished string
  | No_news_found string

text \<open>
  \<open>field in data\<close> for a string \<open>field\<close>: key lookup in a dict, comparison with the
  elements of a list, substring test in a str; every other value is not a container.
\<close>

fun contains :: "pyval \<Rightarrow> string \<Rightarrow> error + bool" where
  "contains (PDict kvs) field = Inr (field \<in> set (map fst kvs))"
| "contains (PList xs) field = Inr (PStr field \<in> set xs)"
| "contains (PStr s) field = Inr (sublist field s)"
| "contains PNone field = Inl TypeError"
| "contains (PBool b) field = Inl TypeError"
| "contains (PInt i) field = Inl TypeError"
| "contains (PFloat x) field = Inl TypeError"

text \<open>
  \<open>data[field] = v\<close> for a string \<open>field\<close>: a dict takes the item (a new key goes
  last); a list wants an integer index and a str is immutable, the rest is not
  subscriptable.
\<close>

fun setitem :: "pyval \<Rightarrow> string \<Rightarrow> pyval \<Rightarrow> error + pyval" where
  "setitem (PDict kvs) field v = Inr (PDict (AList.update field v kvs))"
| "setitem data field v = Inl TypeError"

text \<open>\<open>data[key]\<close> for a string \<open>key\<close>.\<close>

fun getitem :: "pyval \<Rightarrow> string \<Rightarrow> error + pyval" where
  "getitem (PDict kvs) key =
     (case map_of kvs key of None \<Rightarrow> Inl KeyError | Some v \<Rightarrow> Inr v)"
| "getitem PNone key = Inl TypeError"
| "getitem (PBool b) key = Inl TypeError"
| "getitem (PInt i) key = Inl TypeError"
| "getitem (PFloat x) key = Inl TypeError"
| "getitem (PStr s) key = Inl TypeError"
| "getitem (PList xs) key = Inl TypeError"

section \<open>The validator (\<open>SummaryParser.parse\<close>)\<close>

definition required_fields :: "string list" where
  "required_fields = [''topic'', ''entities'', ''summary'', ''timeline'']"

text \<open>
  Lines 23 to 26, the loop over the required fields: the message is printed before
  the assignment is tried. The result is what was printed and either the exception
  that left the loop or the value of \<open>data\<close> after it.
\<close>

fun check_fields :: "string list \<Rightarrow> pyval \<Rightarrow> printed list \<times> (error + pyval)" where
  "check_fields [] data = ([], Inr data)"
| "check_fields (field # rest) data =
     (case contains data field of
        Inl e \<Rightarrow> ([], Inl e)
      | Inr True \<Rightarrow> check_fields rest data
      | Inr False \<Rightarrow>
          (let note = Say (field @ '' is not in result'') in
           case setitem data field (PStr ''na'') of
             Inl e \<Rightarrow> ([note], Inl e)
           | Inr data' \<Rightarrow>
               (case check_fields rest data' of (out, r) \<Rightarrow> (note # out, r))))"

definition na_summary :: pyval where
  "na_summary = PDict [(''topic'', PStr ''na''), (''entities'', PStr ''na''),
                       (''summary'', PStr ''na''), (''timeline'', PStr ''na'')]"

text \<open>
  \<open>parse\<close> itself. The decoder \<open>json.loads\<close> belongs to the standard library, not
  to the repository: it is the parameter \<open>loads\<close>, which returns the decoded value
  or the exception it raised. The handler catches \<open>JSONDecodeError\<close> and nothing else.
\<close>

definition parse :: "(string \<Rightarrow> error + pyval) \<Rightarrow> string \<Rightarrow> printed list \<times> (error + pyval)" where
  "parse loads text =
     (case (case loads text of
              Inl e \<Rightarrow> ([], Inl e)
            | Inr data \<Rightarrow> check_fields required_fields data) of
        (out, Inl JSONDecodeError) \<Rightarrow> (out, Inr na_summary)
      | (out, r) \<Rightarrow> (out, r))"

section \<open>A decoder for concrete texts\<close>

text \<open>
  The theorems about \<open>parse\<close> hold for every decoder. To run \<open>parse\<close> on a concrete
  reply, \<open>json_loads\<close> reads a text the way \<open>json.loads\<close> does with its default
  settings: white space is blank, tab, line feed and carriage return; a string may not
  hold a raw control character; \<open>NaN\<close>, \<open>Infinity\<close> and \<open>-Infinity\<close> are accepted; a
  number with a fraction or an exponent is a float, any other an int; a repeated key
  keeps its first place and its last value; anything after the value is an error.
  Every malformed text gives \<open>JSONDecodeError\<close>. Two things are left out, and
  \<open>json_loads\<close> is used below only on texts without them: a \<open>\u\<close> escape in a
  string (answered with \<open>Failure\<close>), and the interpreter's limit on nesting depth.
\<close>

datatype token =
    LBrace | RBrace | LBracket | RBracket | Colon | Comma
  | TString string
  | TScalar pyval

definition digit :: "char \<Rightarrow> bool" where
  "digit c = (c \<in> set ''0123456789'')"

definition digits_value :: "string \<Rightarrow> nat" where
  "digits_value ds = foldl (\<lambda>n c. 10 * n + (of_char c - 48)) 0 ds"

text \<open>The optional fraction and exponent of a number: whether one is there, and the rest.\<close>

definition fraction :: "string \<Rightarrow> (bool \<times> string) option" where
  "fraction r =
     (case r of
        c # t \<Rightarrow>
          if c = CHR ''.''
          then (if takeWhile digit t = [] then None else Some (True, dropWhile digit t))
          else Some (False, r)
      | [] \<Rightarrow> Some (False, r))"

definition exponent :: "string \<Rightarrow> (bool \<times> string) option" where
  "exponent r =
     (case r of
        c # t \<Rightarrow>
          if c = CHR ''e'' \<or> c = CHR ''E''
          then (let u = (case t of
                           sc # v \<Rightarrow> if sc = CHR ''+'' \<or> sc = CHR ''-'' then v else t
                         | [] \<Rightarrow> t)
                in if takeWhile digit u = [] then None else Some (True, dropWhile digit u))
          else Some (False, r)
      | [] \<Rightarrow> Some (False, r))"

text \<open>
  A whole word as a number: an optional minus sign, \<open>0\<close> or a run of digits that does
  not start with \<open>0\<close>, an optional fraction, an optional exponent, and nothing more.
\<close>

definition number_value :: "string \<Rightarrow> pyval option" where
  "number_value s =
     (let neg = (take 1 s = ''-'');
          s1 = (if neg then drop 1 s else s);
          ds = takeWhile digit s1
      in if ds = [] \<or> (take 1 ds = ''0'' \<and> 1 < length ds) then None
         else (case fraction (dropWhile digit s1) of
                 None \<Rightarrow> None
               | Some (has_frac, r2) \<Rightarrow>
                   (case exponent r2 of
                      None \<Rightarrow> None
                    | Some (has_exp, r3) \<Rightarrow>
                        if r3 \<noteq> [] then None
                        else if has_frac \<or> has_exp then Some (PFloat s)
                        else Some (PInt (if neg then - int (digits_value ds)
                                         else int (digits_value ds))))))"

definition scalar_value :: "string \<Rightarrow> pyval option" where
  "scalar_value s =
     (if s = ''null'' then Some PNone
      else if s = ''true'' then Some (PBool True)
      else if s = ''false'' then Some (PBool False)
      else if s = ''NaN'' \<or> s = ''Infinity'' \<or> s = ''-Infinity'' then Some (PFloat s)
      else number_value s)"

definition whitespace :: "char \<Rightarrow> bool" where
  "whitespace c = (c = CHR '' '' \<or> c = CHR 0x09 \<or> c = CHR 0x0A \<or> c = CHR 0x0D)"

text \<open>The characters of numbers and of the literal names.\<close>

definition word_char :: "char \<Rightarrow> bool" where
  "word_char c =
     (digit c \<or> c = CHR ''-'' \<or> c = CHR ''+'' \<or> c = CHR ''.'' \<or>
      c \<in> set ''abcdefghijklmnopqrstuvwxyz'' \<or> c \<in> set ''ABCDEFGHIJKLMNOPQRSTUVWXYZ'')"

definition punctuation :: "char \<Rightarrow> token option" where
  "punctuation c =
     (if c = CHR ''{'' then Some LBrace
      else if c = CHR ''}'' then Some RBrace
      else if c = CHR ''['' then Some LBracket
      else if c = CHR '']'' then Some RBracket
      else if c = CHR '':'' then Some Colon
      else if c = CHR '','' then Some Comma
      else None)"

definition unescape :: "char \<Rightarrow> char option" where
  "unescape c =
     (if c = CHR 0x22 \<or> c = CHR 0x5C \<or> c = CHR ''/'' then Some c
      else if c = CHR ''b'' then Some (CHR 0x08)
      else if c = CHR ''f'' then Some (CHR 0x0C)
      else if c = CHR ''n'' then Some (CHR 0x0A)
      else if c = CHR ''r'' then Some (CHR 0x0D)
      else if c = CHR ''t'' then Some (CHR 0x09)
      else None)"

datatype lexstate =
    Between
  | In_string string
  | In_escape string
  | In_word string

definition emit :: "token \<Rightarrow> error + token list \<Rightarrow> error + token list" where
  "emit t r = (case r of Inl e \<Rightarrow> Inl e | Inr ts \<Rightarrow> Inr (t # ts))"

text \<open>
  One pass over the text. \<open>In_string\<close>, \<open>In_escape\<close> and \<open>In_word\<close> hold the
  characters read so far, last first.
\<close>

fun scan :: "lexstate \<Rightarrow> string \<Rightarrow> error + token list" where
  "scan Between [] = Inr []"
| "scan Between (c # cs) =
     (if whitespace c then scan Between cs
      else if c = CHR 0x22 then scan (In_string []) cs
      else if word_char c then scan (In_word [c]) cs
      else (case punctuation c of
              Some t \<Rightarrow> emit t (scan Between cs)
            | None \<Rightarrow> Inl JSONDecodeError))"
| "scan (In_string acc) [] = Inl JSONDecodeError"
| "scan (In_string acc) (c # cs) =
     (if c = CHR 0x22 then emit (TString (rev acc)) (scan Between cs)
      else if c = CHR 0x5C then scan (In_escape acc) cs
      else if (of_char c :: nat) < 32 then Inl JSONDecodeError
      else scan (In_string (c # acc)) cs)"
| "scan (In_escape acc) [] = Inl JSONDecodeError"
| "scan (In_escape acc) (c # cs) =
     (if c = CHR ''u'' then Inl (Failure ''unicode escape'')
      else (case unescape c of
              Some d \<Rightarrow> scan (In_string (d # acc)) cs
            | None \<Rightarrow> Inl JSONDecodeError))"
| "scan (In_word acc) [] =
     (case scalar_value (rev acc) of
        Some v \<Rightarrow> Inr [TScalar v]
      | None \<Rightarrow> Inl JSONDecodeError)"
| "scan (In_word acc) (c # cs) =
     (if word_char c then scan (In_word (c # acc)) cs
      else (case scalar_value (rev acc) of
              Some v \<Rightarrow>
                (if whitespace c then emit (TScalar v) (scan Between cs)
                 else (case punctuation c of
                         Some t \<Rightarrow> emit (TScalar v) (emit t (scan Between cs))
                       | None \<Rightarrow> Inl JSONDecodeError))
            | None \<Rightarrow> Inl JSONDecodeError))"

text \<open>
  The tokens are read with a stack of the containers that are still open: a list with
  its items so far, an object with its pairs so far, and an object whose next value
  belongs to the key just read.
\<close>

datatype frame =
    Arr "pyval list"
  | Obj "(string \<times> pyval) list"
  | Member "(string \<times> pyval) list" string

datatype mode = First_value | Value | First_key | Key | Want_colon | After | Complete pyval

text \<open>\<open>dict(pairs)\<close>: a key met again keeps its place and takes the new value.\<close>

definition dict_of_pairs :: "(string \<times> pyval) list \<Rightarrow> (string \<times> pyval) list" where
  "dict_of_pairs pairs = foldl (\<lambda>d (k, v). AList.update k v d) [] pairs"

fun put :: "pyval \<Rightarrow> frame list \<Rightarrow> (mode \<times> frame list) option" where
  "put v [] = Some (Complete v, [])"
| "put v (Arr items # st) = Some (After, Arr (items @ [v]) # st)"
| "put v (Member pairs k # st) = Some (After, Obj (pairs @ [(k, v)]) # st)"
| "put v (Obj pairs # st) = None"

fun close_list :: "frame list \<Rightarrow> (mode \<times> frame list) option" where
  "close_list (Arr items # st) = put (PList items) st"
| "close_list st = None"

fun close_dict :: "frame list \<Rightarrow> (mode \<times> frame list) option" where
  "close_dict (Obj pairs # st) = put (PDict (dict_of_pairs pairs)) st"
| "close_dict st = None"

fun open_value :: "bool \<Rightarrow> frame list \<Rightarrow> token \<Rightarrow> (mode \<times> frame list) option" where
  "open_value first st (TScalar v) = put v st"
| "open_value first st (TString s) = put (PStr s) st"
| "open_value first st LBracket = Some (First_value, Arr [] # st)"
| "open_value first st LBrace = Some (First_key, Obj [] # st)"
| "open_value first st RBracket = (if first then close_list st else None)"
| "open_value first st t = None"

fun open_key :: "bool \<Rightarrow> frame list \<Rightarrow> token \<Rightarrow> (mode \<times> frame list) option" where
  "open_key first (Obj pairs # st) (TString k) = Some (Want_colon, Member pairs k # st)"
| "open_key first st RBrace = (if first then close_dict st else None)"
| "open_key first st t = None"

fun after_value :: "frame list \<Rightarrow> token \<Rightarrow> (mode \<times> frame list) option" where
  "after_value (Arr items # st) Comma = Some (Value, Arr items # st)"
| "after_value (Obj pairs # st) Comma = Some (Key, Obj pairs # st)"
| "after_value st RBracket = close_list st"
| "after_value st RBrace = close_dict st"
| "after_value st t = None"

fun step :: "mode \<Rightarrow> frame list \<Rightarrow> token \<Rightarrow> (mode \<times> frame list) option" where
  "step First_value st t = open_value True st t"
| "step Value st t = open_value False st t"
| "step First_key st t = open_key True st t"
| "step Key st t = open_key False st t"
| "step Want_colon st t = (if t = Colon then Some (Value, st) else None)"
| "step After st t = after_value st t"
| "step (Complete v) st t = None"

fun read_tokens :: "mode \<Rightarrow> frame list \<Rightarrow> token list \<Rightarrow> error + pyval" where
  "read_tokens (Complete v) st [] = Inr v"
| "read_tokens m st [] = Inl JSONDecodeError"
| "read_tokens m st (t # ts) =
     (case step m st t of
        None \<Rightarrow> Inl JSONDecodeError
      | Some (m', st') \<Rightarrow> read_tokens m' st' ts)"

definition json_loads :: "string \<Rightarrow> error + pyval" where
  "json_loads s =
     (case scan Between s of
        Inl e \<Rightarrow> Inl e
      | Inr ts \<Rightarrow> read_tokens Value [] ts)"

section \<open>The AP News fetcher (\<open>crawl_apnews.py\<close>)\<close>

text \<open>
  The browser, the network, the HTML parser and the date library are collaborators.
  A \<open>web\<close> says what they deliver:
  \<^item> \<open>start_driver\<close>: the exception \<open>webdriver.Edge\<close> raises, if it raises (line 22);
  \<^item> \<open>search_page url\<close>: the \<open>PagePromo-title\<close> cards of the rendered search page,
    or the exception raised while loading, waiting for, scrolling or reading the page
    (lines 27 to 44);
  \<^item> \<open>article_page url\<close>: the article page as \<open>get_ap_article_content\<close> reads it,
    or the exception raised by the request or the HTML parser (lines 68 to 77);
  \<^item> \<open>iso_date s\<close>: \<open>datetime.fromisoformat(s).strftime("%Y-%m-%d")\<close>, or the
    exception a malformed date raises.

  A card is the first \<open>a\<close> tag inside it, if it has one: the tag's stripped text and
  its \<open>href\<close> attribute, if it has one. An article page is the stripped text of every
  paragraph of the story body, and the \<open>content\<close> attribute of the
  \<open>article:published_time\<close> meta tag (\<open>None\<close> without the tag or the attribute).
  The progress messages and the pauses of this file are left out.
\<close>

record anchor =
  anchor_text :: string
  href :: "string option"

type_synonym card = "anchor option"

record page =
  paragraphs :: "string list"
  published_time :: "string option"

record web =
  start_driver :: "error option"
  search_page :: "string \<Rightarrow> error + card list"
  article_page :: "string \<Rightarrow> error + page"
  iso_date :: "string \<Rightarrow> error + string"

text \<open>
  Lines 45 to 52: the loop over the cards, with the list built so far. An item is
  the pair of \<open>title\<close> and \<open>url\<close>. \<open>a_tag['href']\<close> raises \<open>KeyError\<close> when the
  attribute is missing. \<open>max_articles\<close> is a Python int.
\<close>

fun collect_cards :: "card list \<Rightarrow> (string \<times> string) list \<Rightarrow> int \<Rightarrow> error + (string \<times> string) list" where
  "collect_cards [] news_list max_articles = Inr news_list"
| "collect_cards (card' # cards) news_list max_articles =
     (if int (length news_list) \<ge> max_articles then Inr news_list
      else (case card' of
              None \<Rightarrow> collect_cards cards news_list max_articles
            | Some a_tag \<Rightarrow>
                (case href a_tag of
                   None \<Rightarrow> Inl KeyError
                 | Some link \<Rightarrow>
                     collect_cards cards (news_list @ [(anchor_text a_tag, link)]) max_articles)))"

text \<open>
  The \<open>try\<close> of \<open>get_ap_news_list_selenium\<close> has a \<open>finally\<close> (closing the browser)
  and no \<open>except\<close>: an exception leaves the function.
\<close>

definition get_ap_news_list_selenium :: "web \<Rightarrow> string \<Rightarrow> int \<Rightarrow> error + (string \<times> string) list" where
  "get_ap_news_list_selenium w topic max_articles =
     (case start_driver w of
        Some e \<Rightarrow> Inl e
      | None \<Rightarrow>
          (case search_page w (''https://apnews.com/search?q='' @ topic) of
             Inl e \<Rightarrow> Inl e
           | Inr cards \<Rightarrow> collect_cards cards [] max_articles))"

text \<open>\<open>" ".join(...)\<close> and \<open>.replace("Z", "+00:00")\<close>.\<close>

fun join_space :: "string list \<Rightarrow> string" where
  "join_space [] = []"
| "join_space [x] = x"
| "join_space (x # y # ys) = x @ '' '' @ join_space (y # ys)"

definition replace_Z :: "string \<Rightarrow> string" where
  "replace_Z s = concat (map (\<lambda>c. if c = CHR ''Z'' then ''+00:00'' else [c]) s)"

text \<open>
  \<open>get_ap_article_content\<close> returns the pair of \<open>content\<close> and \<open>publish_date\<close>. Its
  handler catches every exception of the body, a malformed date included, and answers
  with two empty strings.
\<close>

definition get_ap_article_content :: "web \<Rightarrow> string \<Rightarrow> string \<times> string" where
  "get_ap_article_content w link =
     (case article_page w link of
        Inl e \<Rightarrow> ([], [])
      | Inr soup \<Rightarrow>
          (let body = join_space (paragraphs soup) in
           case published_time soup of
             None \<Rightarrow> (body, [])
           | Some t \<Rightarrow>
               (if t = [] then (body, [])
                else (case iso_date w (replace_Z t) of
                        Inl e \<Rightarrow> ([], [])
                      | Inr d \<Rightarrow> (body, d)))))"

text \<open>Lines 102 to 115: the loop over the items, with the list \<open>detailed\<close> built so far.\<close>

fun fetch_details :: "web \<Rightarrow> (string \<times> string) list \<Rightarrow> raw_article list \<Rightarrow> raw_article list" where
  "fetch_details w [] detailed = detailed"
| "fetch_details w (news # rest) detailed =
     (let article = get_ap_article_content w (snd news) in
      if fst article \<noteq> []
      then fetch_details w rest
             (detailed @ [\<lparr>title = fst news, url = snd news, content = fst article,
                            publish_date = snd article, source = ''AP News''\<rparr>])
      else fetch_details w rest detailed)"

definition get_ap_news_with_content :: "web \<Rightarrow> string \<Rightarrow> int \<Rightarrow> error + raw_article list" where
  "get_ap_news_with_content w topic max_articles =
     (case get_ap_news_list_selenium w topic max_articles of
        Inl e \<Rightarrow> Inl e
      | Inr news_list \<Rightarrow>
          (if news_list = [] then Inr [] else Inr (fetch_details w news_list [])))"

definition max_articles_count :: int where
  "max_articles_count = 20"

section \<open>The pipeline (\<open>NewsSummaryPipeline\<close>)\<close>

text \<open>
  What surrounds the pipeline, as a \<open>world\<close>:
  \<^item> \<open>get_cnn_news_with_content topic\<close>: the fetcher of \<open>crawl_cnn\<close>, which is not
    among the sources: the articles it returns or the exception it raises;
  \<^item> \<open>cnn_printed topic\<close>: what that fetcher prints while it runs;
  \<^item> \<open>build_chain\<close>: the exception raised while the prompt template and the chain
    are put together (lines 85 to 90, before the \<open>try\<close>), if any;
  \<^item> \<open>invoke_model topic news_list\<close>: the text of the model's reply to the one
    prompt, or the exception raised by the prompt or the model service;
  \<^item> \<open>json_library\<close>: \<open>json.loads\<close>, the decoder handed to \<open>parse\<close>;
  \<^item> \<open>read_template\<close>: the content of \<open>template.html\<close>, or the exception raised by
    opening or reading it;
  \<^item> \<open>parse_template\<close>: the exception \<open>Template(template_str)\<close> raises, if any;
  \<^item> \<open>render_template\<close>: \<open>template.render\<close> with the template and its six arguments
    in the order of lines 110 to 115: the document, or the exception raised;
  \<^item> \<open>clock\<close>: the formatted time of the run;
  \<^item> \<open>open_file path\<close>: the exception raised by opening \<open>path\<close> for writing, if any;
  \<^item> \<open>write_file path content\<close>: the exception raised by writing \<open>content\<close> to the
    opened file or by closing it, if any, together with what the file holds by then.

  The files on disk are a map from path to content. Opening a file for writing
  creates it or empties it.
\<close>

record world =
  get_cnn_news_with_content :: "string \<Rightarrow> error + raw_article list"
  cnn_printed :: "string \<Rightarrow> printed list"
  build_chain :: "error option"
  invoke_model :: "string \<Rightarrow> raw_article list \<Rightarrow> error + string"
  json_library :: "string \<Rightarrow> error + pyval"
  read_template :: "error + string"
  parse_template :: "string \<Rightarrow> error option"
  render_template ::
    "string \<Rightarrow> pyval \<Rightarrow> pyval \<Rightarrow> pyval \<Rightarrow> pyval \<Rightarrow> raw_article list \<Rightarrow> string \<Rightarrow> error + string"
  clock :: string
  open_file :: "string \<Rightarrow> error option"
  write_file :: "string \<Rightarrow> string \<Rightarrow> (error \<times> string) option"

definition fetch_news_data :: "world \<Rightarrow> string \<Rightarrow> printed list \<times> (error + raw_article list)" where
  "fetch_news_data w topic =
     (case get_cnn_news_with_content w topic of
        Inl e \<Rightarrow> ([Cnn_begin] @ cnn_printed w topic, Inl e)
      | Inr cnn_news \<Rightarrow>
          ([Cnn_begin] @ cnn_printed w topic @ [Cnn_count (length cnn_news)], Inr cnn_news))"

text \<open>
  The chain runs the model and then \<open>SummaryParser.parse\<close> on the reply, both inside
  the \<open>try\<close>. The handler catches every exception, prints it and lets the function
  end without a \<open>return\<close>: the result is \<open>None\<close>.
\<close>

definition extract_entities_and_summary ::
    "world \<Rightarrow> string \<Rightarrow> raw_article list \<Rightarrow> printed list \<times> (error + pyval)" where
  "extract_entities_and_summary w topic news_list =
     (case build_chain w of
        Some e \<Rightarrow> ([], Inl e)
      | None \<Rightarrow>
          (case (case invoke_model w topic news_list of
                   Inl e \<Rightarrow> ([], Inl e)
                 | Inr reply \<Rightarrow> parse (json_library w) reply) of
             (out, Inl e) \<Rightarrow> (out @ [Error_report e], Inr PNone)
           | (out, Inr result) \<Rightarrow> (out, Inr result)))"

text \<open>
  \<open>generate_html\<close>: the template is read and parsed first, then the four items of
  \<open>processed_data\<close> are taken in the order \<open>topic\<close>, \<open>summary\<close>, \<open>entities\<close>,
  \<open>timeline\<close>, then the template is rendered.
\<close>

definition generate_html :: "world \<Rightarrow> pyval \<Rightarrow> raw_article list \<Rightarrow> error + string" where
  "generate_html w processed_data news_list =
     (case read_template w of
        Inl e \<Rightarrow> Inl e
      | Inr template_str \<Rightarrow>
     (case parse_template w template_str of
        Some e \<Rightarrow> Inl e
      | None \<Rightarrow>
     (case getitem processed_data ''topic'' of
        Inl e \<Rightarrow> Inl e
      | Inr v_topic \<Rightarrow>
     (case getitem processed_data ''summary'' of
        Inl e \<Rightarrow> Inl e
      | Inr v_summary \<Rightarrow>
     (case getitem processed_data ''entities'' of
        Inl e \<Rightarrow> Inl e
      | Inr v_entities \<Rightarrow>
     (case getitem processed_data ''timeline'' of
        Inl e \<Rightarrow> Inl e
      | Inr v_timeline \<Rightarrow>
          render_template w template_str v_topic v_summary v_entities v_timeline
            news_list (clock w)))))))"

text \<open>
  \<open>run_pipeline\<close>, for the pipeline's topic, the output path and the files on disk:
  what was printed, the files afterwards, and the returned path or the exception that
  ended the run. Nothing is written before line 143. There the file is opened, which
  empties it, and then written: when the write raises, the file is left with what had
  reached it, and the run ends with the exception.
\<close>

definition run_pipeline ::
    "world \<Rightarrow> string \<Rightarrow> string \<Rightarrow> (string \<rightharpoonup> string)
      \<Rightarrow> printed list \<times> (string \<rightharpoonup> string) \<times> (error + string)" where
  "run_pipeline w topic output_file files =
     (case fetch_news_data w topic of
        (out1, Inl e) \<Rightarrow> ([Topic_begin topic, Step_fetch] @ out1, files, Inl e)
      | (out1, Inr news_data) \<Rightarrow>
          (let unique_news = deduplicate_news news_data in
           case extract_entities_and_summary w topic unique_news of
             (out2, Inl e) \<Rightarrow>
               ([Topic_begin topic, Step_fetch] @ out1 @ [Step_dedup, Step_extract] @ out2,
                files, Inl e)
           | (out2, Inr processed_data) \<Rightarrow>
               (let out = [Topic_begin topic, Step_fetch] @ out1 @ [Step_dedup, Step_extract]
                            @ out2 @ [Step_html]
                in case generate_html w processed_data unique_news of
                     Inl e \<Rightarrow> (out, files, Inl e)
                   | Inr html_content \<Rightarrow>
                       (case open_file w output_file of
                          Some e \<Rightarrow> (out, files, Inl e)
                        | None \<Rightarrow>
                            (case write_file w output_file html_content of
                               Some (e, written) \<Rightarrow>
                                 (out, files(output_file \<mapsto> written), Inl e)
                             | None \<Rightarrow>
                                 (out @ [Finished output_file],
                                  files(output_file \<mapsto> html_content),
                                  Inr output_file))))))"

section \<open>Notions used by the statements\<close>

text \<open>The required fields that a decoded object lacks, in the order of the loop.\<close>

definition missing_fields :: "(string \<times> pyval) list \<Rightarrow> string list" where
  "missing_fields kvs = filter (\<lambda>f. f \<notin> fst ` set kvs) required_fields"

text \<open>The value of a field after validation: the decoded one, or \<open>'na'\<close> without one.\<close>

definition field_value :: "(string \<times> pyval) list \<Rightarrow> string \<Rightarrow> pyval" where
  "field_value kvs f = (case map_of kvs f of Some v \<Rightarrow> v | None \<Rightarrow> PStr ''na'')"

fun is_str :: "pyval \<Rightarrow> bool" where
  "is_str (PStr s) = True"
| "is_str v = False"

text \<open>
  A result that is a record of exactly the four required fields, each a string, and
  not an exception.
\<close>

fun structured_summary :: "error + pyval \<Rightarrow> bool" where
  "structured_summary (Inr (PDict kvs)) =
     (distinct (map fst kvs) \<and>
      set (map fst kvs) = {''topic'', ''entities'', ''summary'', ''timeline''} \<and>
      list_all is_str (map snd kvs))"
| "structured_summary r = False"

section \<open>Concrete inputs\<close>

definition sample_article :: "string \<Rightarrow> string \<Rightarrow> raw_article" where
  "sample_article t u =
     \<lparr>title = t, url = u, content = ''body'', publish_date = ''2025-01-02'', source = ''CNN''\<rparr>"

text \<open>
  Titles of more than 50 characters: \<open>title_second\<close> agrees with \<open>title_paris\<close> on
  the first 50 characters, \<open>title_near\<close> on the first 49 only.
\<close>

definition title_paris :: string where
  "title_paris = ''Alpha wins the award for best newcomer of the year in Paris''"

definition title_second :: string where
  "title_second = ''Alpha wins the award for best newcomer of the year; Beta is second''"

definition title_near :: string where
  "title_near = ''Alpha wins the award for best newcomer of the yea! in Paris''"

definition boundary_news :: "raw_article list" where
  "boundary_news = [sample_article title_paris ''u1'', sample_article ''Beta'' ''u2'',
                    sample_article title_second ''u3'', sample_article title_near ''u4'',
                    sample_article ''Beta'' ''u5'']"

definition sample_news :: "raw_article list" where
  "sample_news = [sample_article title_paris ''u1'', sample_article ''Beta'' ''u2'',
                  sample_article title_second ''u3'']"

text \<open>
  A world in which the fetcher answers \<open>fetched\<close> and the model \<open>replied\<close>, the
  fetcher says so when it has found nothing (as the AP News fetcher does), the
  template has no placeholder and renders as itself, and every file can be written.
\<close>

definition example_world :: "(error + raw_article list) \<Rightarrow> (error + string) \<Rightarrow> world" where
  "example_world fetched replied =
     \<lparr>get_cnn_news_with_content = (\<lambda>topic. fetched),
      cnn_printed = (\<lambda>topic. if fetched = Inr [] then [No_news_found ''CNN''] else []),
      build_chain = None,
      invoke_model = (\<lambda>topic news_list. replied),
      json_library = json_loads,
      read_template = Inr ''<html></html>'',
      parse_template = (\<lambda>template_str. None),
      render_template =
        (\<lambda>template_str v_topic v_summary v_entities v_timeline news_list now. Inr template_str),
      clock = ''2025-01-02 03:04'',
      open_file = (\<lambda>path. None),
      write_file = (\<lambda>path content. None)\<rparr>"

text \<open>
  A web in which the search page answers \<open>found\<close>, the article
  \<open>https://apnews.com/article/empty\<close> has no story body, and every other article
  has two paragraphs and a date.
\<close>

definition example_web :: "(error + card list) \<Rightarrow> web" where
  "example_web found =
     \<lparr>start_driver = None,
      search_page = (\<lambda>link. found),
      article_page =
        (\<lambda>link. if link = ''https://apnews.com/article/empty''
                then Inr \<lparr>paragraphs = [], published_time = None\<rparr>
                else Inr \<lparr>paragraphs = [''First.'', ''Second.''],
                          published_time = Some ''2025-01-02T03:04:05Z''\<rparr>),
      iso_date = (\<lambda>s. Inr (take 10 s))\<rparr>"

text \<open>
  Five cards of a search page: the second has no link inside, the article of the
  third has no story body. \<open>alpha_record\<close> is the record for the first.
\<close>

definition sample_cards :: "card list" where
  "sample_cards =
     [Some \<lparr>anchor_text = ''Alpha wins award'', href = Some ''https://apnews.com/article/alpha''\<rparr>,
      None,
      Some \<lparr>anchor_text = ''Empty'', href = Some ''https://apnews.com/article/empty''\<rparr>,
      Some \<lparr>anchor_text = ''Beta'', href = Some ''https://apnews.com/article/beta''\<rparr>,
      Some \<lparr>anchor_text = ''Gamma'', href = Some ''https://apnews.com/article/gamma''\<rparr>]"

definition alpha_record :: raw_article where
  "alpha_record =
     \<lparr>title = ''Alpha wins award'', url = ''https://apnews.com/article/alpha'',
      content = ''First. Second.'', publish_date = ''2025-01-02'', source = ''AP News''\<rparr>"

section \<open>Facts about the deduplication loop\<close>

lemma dedup_loop_fresh: "dedup_loop xs acc seen = acc @ fresh seen xs"
  by (induction xs arbitrary: acc seen) auto

lemma deduplicate_news_fresh: "deduplicate_news xs = fresh {} xs"
  by (simp add: deduplicate_news_def dedup_loop_fresh)

lemma fresh_subseq: "subseq (fresh seen xs) xs"
  by (induction xs arbitrary: seen) auto

lemma fresh_length: "length (fresh seen xs) \<le> length xs"
  by (induction xs arbitrary: seen) (auto intro: le_SucI)

lemma fresh_keys_unseen: "a \<in> set (fresh seen xs) \<Longrightarrow> title_key a \<notin> seen"
  by (induction xs arbitrary: seen) (auto split: if_splits)

lemma fresh_distinct: "distinct (map title_key (fresh seen xs))"
  by (induction xs arbitrary: seen) (auto dest: fresh_keys_unseen)

lemma fresh_find:
  "find (\<lambda>b. title_key b = k) (fresh seen xs) =
     (if k \<in> seen then None else find (\<lambda>b. title_key b = k) xs)"
proof (induction xs arbitrary: seen)
  case Nil
  show ?case by simp
next
  case (Cons x xs)
  show ?case
  proof (cases "title_key x \<in> seen")
    case True
    then show ?thesis using Cons.IH [of seen] by auto
  next
    case False
    then show ?thesis using Cons.IH [of "insert (title_key x) seen"] by auto
  qed
qed

lemma title_key_fun: "title_key = (\<lambda>a. take 50 (title a))"
  by (simp add: fun_eq_iff title_key_def)

lemma upt_Suc_shift: "[0..<Suc n] = 0 # map Suc [0..<n]"
  by (simp add: upt_conv_Cons map_Suc_upt del: upt_Suc)

text \<open>
  The loop keeps the articles whose key is neither among the keys already met nor the
  key of an earlier article of the list, in the order of the list.
\<close>

lemma fresh_index:
  "fresh seen xs =
     map ((!) xs)
       (filter (\<lambda>i. title_key (xs ! i) \<notin> seen \<union> title_key ` set (take i xs))
          [0..<length xs])"
proof (induction xs arbitrary: seen)
  case Nil
  show ?case by simp
next
  case (Cons x xs)
  have shift: "[0..<length (x # xs)] = 0 # map Suc [0..<length xs]"
    using upt_Suc_shift [of "length xs"] by simp
  show ?case
  proof (cases "title_key x \<in> seen")
    case True
    then have same:
      "(\<lambda>i. title_key (xs ! i) \<notin> seen \<and> title_key (xs ! i) \<noteq> title_key x
              \<and> title_key (xs ! i) \<notin> title_key ` set (take i xs))
       = (\<lambda>i. title_key (xs ! i) \<notin> seen
              \<and> title_key (xs ! i) \<notin> title_key ` set (take i xs))"
      by auto
    show ?thesis
      unfolding shift using True Cons.IH [of seen]
      by (simp add: filter_map comp_def same)
  next
    case False
    have same:
      "(\<lambda>i. title_key (xs ! i) \<notin> seen \<and> title_key (xs ! i) \<noteq> title_key x
              \<and> title_key (xs ! i) \<notin> title_key ` set (take i xs))
       = (\<lambda>i. title_key (xs ! i) \<noteq> title_key x \<and> title_key (xs ! i) \<notin> seen
              \<and> title_key (xs ! i) \<notin> title_key ` set (take i xs))"
      by auto
    show ?thesis
      unfolding shift using False Cons.IH [of "insert (title_key x) seen"]
      by (simp add: filter_map comp_def same)
  qed
qed

lemma fresh_fixed:
  "distinct (map title_key ys) \<Longrightarrow> title_key ` set ys \<inter> seen = {} \<Longrightarrow> fresh seen ys = ys"
proof (induction ys arbitrary: seen)
  case Nil
  show ?case by simp
next
  case (Cons y ys)
  have "title_key y \<notin> seen" using Cons.prems(2) by auto
  moreover have "title_key ` set ys \<inter> insert (title_key y) seen = {}"
    using Cons.prems by auto
  moreover have "distinct (map title_key ys)" using Cons.prems(1) by simp
  ultimately show ?case using Cons.IH [of "insert (title_key y) seen"] by simp
qed

section \<open>Facts about the validator\<close>

lemma update_absent: "k \<notin> fst ` set al \<Longrightarrow> AList.update k v al = al @ [(k, v)]"
  by (induction al) auto

text \<open>
  On a dict the loop never raises: it prints one message per absent field and
  appends that field with \<open>'na'\<close>; the entries of the dict stay as they are.
\<close>

lemma check_fields_dict:
  "distinct fs \<Longrightarrow>
   check_fields fs (PDict kvs) =
     (map (\<lambda>f. Say (f @ '' is not in result'')) (filter (\<lambda>f. f \<notin> fst ` set kvs) fs),
      Inr (PDict (kvs @ map (\<lambda>f. (f, PStr ''na'')) (filter (\<lambda>f. f \<notin> fst ` set kvs) fs))))"
proof (induction fs arbitrary: kvs)
  case Nil
  show ?case by simp
next
  case (Cons f fs)
  show ?case
  proof (cases "f \<in> fst ` set kvs")
    case True
    then show ?thesis using Cons.IH [of kvs] Cons.prems by simp
  next
    case False
    have same: "filter (\<lambda>g. g \<notin> fst ` set (kvs @ [(f, PStr ''na'')])) fs
                  = filter (\<lambda>g. g \<notin> fst ` set kvs) fs"
      using Cons.prems by (intro filter_cong) auto
    show ?thesis
      using False Cons.IH [of "kvs @ [(f, PStr ''na'')]"] Cons.prems same
      by (simp add: update_absent)
  qed
qed

lemma distinct_required: "distinct required_fields"
  by (simp add: required_fields_def)

lemma parse_object:
  "loads reply = Inr (PDict kvs) \<Longrightarrow>
   parse loads reply =
     (map (\<lambda>f. Say (f @ '' is not in result'')) (missing_fields kvs),
      Inr (PDict (kvs @ map (\<lambda>f. (f, PStr ''na'')) (missing_fields kvs))))"
  by (simp add: parse_def check_fields_dict distinct_required missing_fields_def)

text \<open>The handler: a text the decoder rejects gives the record of four \<open>'na'\<close>.\<close>

lemma parse_decode_error:
  "loads reply = Inl JSONDecodeError \<Longrightarrow> parse loads reply = ([], Inr na_summary)"
  by (simp add: parse_def)

text \<open>Any other exception of the decoder passes the handler.\<close>

lemma parse_other_error:
  "loads reply = Inl e \<Longrightarrow> e \<noteq> JSONDecodeError \<Longrightarrow> parse loads reply = ([], Inl e)"
  by (cases e) (simp_all add: parse_def)

text \<open>
  A decoded value that is no container, or a list or str without the word
  \<open>topic\<close> in it, makes \<open>parse\<close> raise \<open>TypeError\<close>.
\<close>

lemma parse_not_a_dict:
  "loads reply = Inr data \<Longrightarrow> contains data ''topic'' \<noteq> Inr True \<Longrightarrow>
   (\<forall>kvs. data \<noteq> PDict kvs) \<Longrightarrow> snd (parse loads reply) = Inl TypeError"
  by (cases data) (simp_all add: parse_def required_fields_def)

lemma filled_keys:
  "set required_fields \<subseteq> fst ` set (kvs @ map (\<lambda>f. (f, PStr ''na'')) (missing_fields kvs))"
  by (auto simp: missing_fields_def image_Un image_image)

lemma getitem_filled:
  "f \<in> set required_fields \<Longrightarrow>
   getitem (PDict (kvs @ map (\<lambda>f. (f, PStr ''na'')) (missing_fields kvs))) f
     = Inr (field_value kvs f)"
proof (cases "map_of kvs f")
  case None
  assume req: "f \<in> set required_fields"
  from None have "f \<notin> fst ` set kvs" by (simp add: map_of_eq_None_iff)
  with req have "f \<in> set (missing_fields kvs)" by (simp add: missing_fields_def)
  then have "map_of (map (\<lambda>f. (f, PStr ''na'')) (missing_fields kvs)) f = Some (PStr ''na'')"
    by (simp add: map_of_map_restrict)
  with None show ?thesis by (simp add: field_value_def map_add_def)
next
  case (Some v)
  then show ?thesis by (simp add: field_value_def map_add_def)
qed

section \<open>Facts about the AP News fetcher\<close>

lemma collect_cards_bound:
  "collect_cards cards news_list m = Inr items \<Longrightarrow> int (length news_list) \<le> m \<Longrightarrow>
   int (length items) \<le> m"
proof (induction cards arbitrary: news_list)
  case Nil
  then show ?case by simp
next
  case (Cons c cards)
  show ?case
  proof (cases "int (length news_list) \<ge> m")
    case True
    then show ?thesis using Cons.prems by simp
  next
    case False
    then show ?thesis
      using Cons.prems Cons.IH
      by (auto split: option.splits)
  qed
qed

lemma collect_cards_no_room:
  "m \<le> 0 \<Longrightarrow> collect_cards cards [] m = Inr []"
  by (cases cards) simp_all

lemma fetch_details_length:
  "length (fetch_details w items detailed) \<le> length detailed + length items"
proof (induction items arbitrary: detailed)
  case Nil
  show ?case by simp
next
  case (Cons n items)
  show ?case
    using Cons.IH [of detailed]
          Cons.IH [of "detailed @ [\<lparr>title = fst n, url = snd n,
                         content = fst (get_ap_article_content w (snd n)),
                         publish_date = snd (get_ap_article_content w (snd n)),
                         source = ''AP News''\<rparr>]"]
    by (simp add: Let_def)
qed

lemma fetch_details_records:
  "a \<in> set (fetch_details w items detailed) \<Longrightarrow>
   a \<in> set detailed \<or> (content a \<noteq> [] \<and> source a = ''AP News'')"
proof (induction items arbitrary: detailed)
  case Nil
  then show ?case by simp
next
  case (Cons n items)
  show ?case
  proof (cases "fst (get_ap_article_content w (snd n)) \<noteq> []")
    case True
    then show ?thesis using Cons.prems Cons.IH by (fastforce simp: Let_def)
  next
    case False
    then show ?thesis using Cons.prems Cons.IH by (simp add: Let_def)
  qed
qed

text \<open>
  An exception of the browser while the search page is loaded leaves both
  \<open>get_ap_news_list_selenium\<close> and \<open>get_ap_news_with_content\<close>.
\<close>

lemma search_failure_propagates:
  "start_driver w = None \<Longrightarrow> search_page w (''https://apnews.com/search?q='' @ topic) = Inl e \<Longrightarrow>
   get_ap_news_with_content w topic max_articles = Inl e"
  by (simp add: get_ap_news_with_content_def get_ap_news_list_selenium_def)

text \<open>\<open>get_ap_article_content\<close> itself always returns.\<close>

lemma article_failure_absorbed:
  "article_page w link = Inl e \<Longrightarrow> get_ap_article_content w link = ([], [])"
  by (simp add: get_ap_article_content_def)

section \<open>Facts about the pipeline\<close>

text \<open>
  With an empty fetched list the run reaches line 143 as soon as the model replies
  with an object, the template renders and the file opens; what follows depends on
  the write.
\<close>

lemma run_pipeline_reaches_write:
  assumes "get_cnn_news_with_content w topic = Inr []"
    and "build_chain w = None"
    and "invoke_model w topic [] = Inr reply"
    and "json_library w reply = Inr (PDict kvs)"
    and "read_template w = Inr template_str"
    and "parse_template w template_str = None"
    and "render_template w template_str (field_value kvs ''topic'')
           (field_value kvs ''summary'') (field_value kvs ''entities'')
           (field_value kvs ''timeline'') [] (clock w) = Inr html_content"
    and "open_file w output_file = None"
  shows "run_pipeline w topic output_file files =
           (case write_file w output_file html_content of
              Some (e, written) \<Rightarrow>
                ([Topic_begin topic, Step_fetch, Cnn_begin] @ cnn_printed w topic
                   @ [Cnn_count 0, Step_dedup, Step_extract]
                   @ map (\<lambda>f. Say (f @ '' is not in result'')) (missing_fields kvs)
                   @ [Step_html],
                 files(output_file \<mapsto> written), Inl e)
            | None \<Rightarrow>
                ([Topic_begin topic, Step_fetch, Cnn_begin] @ cnn_printed w topic
                   @ [Cnn_count 0, Step_dedup, Step_extract]
                   @ map (\<lambda>f. Say (f @ '' is not in result'')) (missing_fields kvs)
                   @ [Step_html, Finished output_file],
                 files(output_file \<mapsto> html_content), Inr output_file))"
proof -
  have fetched:
    "fetch_news_data w topic = ([Cnn_begin] @ cnn_printed w topic @ [Cnn_count 0], Inr [])"
    using assms(1) by (simp add: fetch_news_data_def)
  have dedup: "deduplicate_news [] = []"
    by (simp add: deduplicate_news_def)
  have extracted: "extract_entities_and_summary w topic [] =
      (map (\<lambda>f. Say (f @ '' is not in result'')) (missing_fields kvs),
       Inr (PDict (kvs @ map (\<lambda>f. (f, PStr ''na'')) (missing_fields kvs))))"
    using assms(2,3) parse_object [of "json_library w" reply kvs] assms(4)
    by (simp add: extract_entities_and_summary_def)
  have html:
    "generate_html w (PDict (kvs @ map (\<lambda>f. (f, PStr ''na'')) (missing_fields kvs))) []
       = Inr html_content"
    unfolding generate_html_def
    using assms(5,6,7) by (simp add: getitem_filled required_fields_def del: getitem.simps)
  show ?thesis
    unfolding run_pipeline_def
    using fetched dedup extracted html assms(8) by (simp split: option.splits)
qed

text \<open>
  A write that raises ends the run with the exception and leaves the file with what
  had reached it, not with the document.
\<close>

lemma run_pipeline_write_failure:
  assumes "get_cnn_news_with_content w topic = Inr []"
    and "build_chain w = None"
    and "invoke_model w topic [] = Inr reply"
    and "json_library w reply = Inr (PDict kvs)"
    and "read_template w = Inr template_str"
    and "parse_template w template_str = None"
    and "render_template w template_str (field_value kvs ''topic'')
           (field_value kvs ''summary'') (field_value kvs ''entities'')
           (field_value kvs ''timeline'') [] (clock w) = Inr html_content"
    and "open_file w output_file = None"
    and "write_file w output_file html_content = Some (e, written)"
  shows "snd (run_pipeline w topic output_file files)
           = (files(output_file \<mapsto> written), Inl e)"
  using run_pipeline_reaches_write [OF assms(1-8), of files] assms(9) by simp

section \<open>Claims about the deduplication\<close>

text \<open>
  Claim C3. For every list \<open>L\<close> of articles, with the first 50 characters of the
  title (the whole title when it is shorter) as the key of an article:
  \<open>deduplicate_news L\<close> is the list of those articles of \<open>L\<close> whose key is not the key
  of an earlier article of \<open>L\<close>, in the order of \<open>L\<close>. So it holds at most one article
  per key; for every key that occurs in \<open>L\<close> the article kept under that key is the
  first article of \<open>L\<close> with it; the kept articles are articles of \<open>L\<close>, unchanged and
  in the order of their first occurrence; and the result is no longer than \<open>L\<close>.
\<close>

theorem deduplicate_news_keeps_first:
  "deduplicate_news L =
     map ((!) L)
       (filter (\<lambda>i. take 50 (title (L ! i)) \<notin> (\<lambda>a. take 50 (title a)) ` set (take i L))
          [0..<length L])
   \<and> distinct (map (\<lambda>a. take 50 (title a)) (deduplicate_news L))
   \<and> (\<forall>a \<in> set L. find (\<lambda>b. take 50 (title b) = take 50 (title a)) (deduplicate_news L)
                       = find (\<lambda>b. take 50 (title b) = take 50 (title a)) L)
   \<and> subseq (deduplicate_news L) L
   \<and> length (deduplicate_news L) \<le> length L"
proof -
  have by_index: "deduplicate_news L =
     map ((!) L)
       (filter (\<lambda>i. take 50 (title (L ! i)) \<notin> (\<lambda>a. take 50 (title a)) ` set (take i L))
          [0..<length L])"
    using fresh_index [of "{}" L] by (simp add: deduplicate_news_fresh title_key_def)
  have one_per_key: "distinct (map (\<lambda>a. take 50 (title a)) (deduplicate_news L))"
    using fresh_distinct [of "{}" L] by (simp add: deduplicate_news_fresh title_key_fun)
  have first_kept: "\<forall>a \<in> set L.
      find (\<lambda>b. take 50 (title b) = take 50 (title a)) (deduplicate_news L)
        = find (\<lambda>b. take 50 (title b) = take 50 (title a)) L"
    using fresh_find [of _ "{}" L] by (simp add: deduplicate_news_fresh title_key_def)
  have in_order: "subseq (deduplicate_news L) L"
    by (simp add: deduplicate_news_fresh fresh_subseq)
  have no_longer: "length (deduplicate_news L) \<le> length L"
    by (simp add: deduplicate_news_fresh fresh_length)
  show ?thesis
    using by_index one_per_key first_kept in_order no_longer by blast
qed

text \<open>
  Five articles: the third agrees with the first on the first 50 characters of the
  title and is dropped, the fourth agrees with it on 49 only and is kept, the second
  and the fifth have the same short title. The article found under the third one's key
  is the first one.
\<close>

theorem deduplicate_news_keeps_first_witness:
  "deduplicate_news boundary_news
     = [sample_article title_paris ''u1'', sample_article ''Beta'' ''u2'',
        sample_article title_near ''u4'']
   \<and> sample_article title_second ''u3'' \<in> set boundary_news
   \<and> find (\<lambda>b. take 50 (title b) = take 50 (title (sample_article title_second ''u3'')))
        (deduplicate_news boundary_news)
       = Some (sample_article title_paris ''u1'')"
proof -
  have all: "deduplicate_news boundary_news =
     map ((!) boundary_news)
       (filter (\<lambda>i. take 50 (title (boundary_news ! i))
                      \<notin> (\<lambda>a. take 50 (title a)) ` set (take i boundary_news))
          [0..<length boundary_news])
   \<and> distinct (map (\<lambda>a. take 50 (title a)) (deduplicate_news boundary_news))
   \<and> (\<forall>a \<in> set boundary_news.
         find (\<lambda>b. take 50 (title b) = take 50 (title a)) (deduplicate_news boundary_news)
           = find (\<lambda>b. take 50 (title b) = take 50 (title a)) boundary_news)
   \<and> subseq (deduplicate_news boundary_news) boundary_news
   \<and> length (deduplicate_news boundary_news) \<le> length boundary_news"
    by (rule deduplicate_news_keeps_first)
  have kept: "map ((!) boundary_news)
       (filter (\<lambda>i. take 50 (title (boundary_news ! i))
                      \<notin> (\<lambda>a. take 50 (title a)) ` set (take i boundary_news))
          [0..<length boundary_news])
     = [sample_article title_paris ''u1'', sample_article ''Beta'' ''u2'',
        sample_article title_near ''u4'']"
    by (simp add: boundary_news_def sample_article_def title_paris_def title_second_def
                  title_near_def upt_rec)
  have third: "sample_article title_second ''u3'' \<in> set boundary_news"
    by (simp add: boundary_news_def)
  have first: "find (\<lambda>b. take 50 (title b) = take 50 (title (sample_article title_second ''u3'')))
                 boundary_news = Some (sample_article title_paris ''u1'')"
    by (simp add: boundary_news_def sample_article_def title_paris_def title_second_def)
  from all have "deduplicate_news boundary_news =
     map ((!) boundary_news)
       (filter (\<lambda>i. take 50 (title (boundary_news ! i))
                      \<notin> (\<lambda>a. take 50 (title a)) ` set (take i boundary_news))
          [0..<length boundary_news])"
    by (rule conjunct1)
  then have result: "deduplicate_news boundary_news
     = [sample_article title_paris ''u1'', sample_article ''Beta'' ''u2'',
        sample_article title_near ''u4'']"
    using kept by (rule trans)
  from all have "\<forall>a \<in> set boundary_news.
         find (\<lambda>b. take 50 (title b) = take 50 (title a)) (deduplicate_news boundary_news)
           = find (\<lambda>b. take 50 (title b) = take 50 (title a)) boundary_news"
    by (elim conjE)
  then have "find (\<lambda>b. take 50 (title b) = take 50 (title (sample_article title_second ''u3'')))
        (deduplicate_news boundary_news)
       = find (\<lambda>b. take 50 (title b) = take 50 (title (sample_article title_second ''u3'')))
           boundary_news"
    using third by (rule bspec)
  then have found: "find (\<lambda>b. take 50 (title b) = take 50 (title (sample_article title_second ''u3'')))
        (deduplicate_news boundary_news) = Some (sample_article title_paris ''u1'')"
    using first by (rule trans)
  show ?thesis
    by (intro conjI) (rule result third found)+
qed

text \<open>
  Claim C7. Deduplication is idempotent: deduplicating a deduplicated list changes
  nothing.
\<close>

theorem deduplicate_news_idempotent:
  "deduplicate_news (deduplicate_news L) = deduplicate_news L"
  unfolding deduplicate_news_fresh
  by (rule fresh_fixed) (simp_all add: fresh_distinct)

section \<open>Claims about the validator\<close>

text \<open>
  Claim C1, as amended. The claim reads: for every string \<open>parse\<close> returns a record
  of exactly four string-valued fields and never raises. What holds:
  \<^item> for every reply that the decoder rejects with \<open>JSONDecodeError\<close> (the empty
    string, prose, truncated text), \<open>parse\<close> returns, without raising, the record of
    exactly the four fields, each the string \<open>'na'\<close>;
  \<^item> for every reply that decodes to an object, \<open>parse\<close> returns, without raising,
    a dict whose keys are those of the object and the four required ones; a required
    key that the object lacks has the string \<open>'na'\<close>, every other key its decoded
    value; and this dict is a record of exactly four string-valued fields if and only
    if the object has no key beside the four and no value that is not a string.
\<close>

theorem parse_returns_required_fields:
  "(loads reply = Inl JSONDecodeError \<longrightarrow>
      parse loads reply =
        ([], Inr (PDict [(''topic'', PStr ''na''), (''entities'', PStr ''na''),
                         (''summary'', PStr ''na''), (''timeline'', PStr ''na'')]))
      \<and> structured_summary (snd (parse loads reply)))
   \<and> (loads reply = Inr (PDict kvs) \<longrightarrow>
      (\<exists>out kvs'.
         parse loads reply = (out, Inr (PDict kvs'))
         \<and> fst ` set kvs' = fst ` set kvs \<union> {''topic'', ''entities'', ''summary'', ''timeline''}
         \<and> (\<forall>k. map_of kvs' k =
                   (if k \<in> {''topic'', ''entities'', ''summary'', ''timeline''}
                         \<and> k \<notin> fst ` set kvs
                    then Some (PStr ''na'') else map_of kvs k))
         \<and> (structured_summary (Inr (PDict kvs')) \<longleftrightarrow>
               distinct (map fst kvs)
               \<and> fst ` set kvs \<subseteq> {''topic'', ''entities'', ''summary'', ''timeline''}
               \<and> list_all is_str (map snd kvs))))"
proof (rule conjI)
  show "loads reply = Inl JSONDecodeError \<longrightarrow>
      parse loads reply =
        ([], Inr (PDict [(''topic'', PStr ''na''), (''entities'', PStr ''na''),
                         (''summary'', PStr ''na''), (''timeline'', PStr ''na'')]))
      \<and> structured_summary (snd (parse loads reply))"
  proof (rule impI)
    assume "loads reply = Inl JSONDecodeError"
    then have "parse loads reply = ([], Inr na_summary)" by (rule parse_decode_error)
    then show "parse loads reply =
        ([], Inr (PDict [(''topic'', PStr ''na''), (''entities'', PStr ''na''),
                         (''summary'', PStr ''na''), (''timeline'', PStr ''na'')]))
      \<and> structured_summary (snd (parse loads reply))"
      by (simp add: na_summary_def)
  qed
next
  let ?four = "{''topic'', ''entities'', ''summary'', ''timeline''}"
  let ?added = "map (\<lambda>f. (f, PStr ''na'')) (missing_fields kvs)"
  show "loads reply = Inr (PDict kvs) \<longrightarrow>
      (\<exists>out kvs'.
         parse loads reply = (out, Inr (PDict kvs'))
         \<and> fst ` set kvs' = fst ` set kvs \<union> ?four
         \<and> (\<forall>k. map_of kvs' k =
                   (if k \<in> ?four \<and> k \<notin> fst ` set kvs then Some (PStr ''na'') else map_of kvs k))
         \<and> (structured_summary (Inr (PDict kvs')) \<longleftrightarrow>
               distinct (map fst kvs) \<and> fst ` set kvs \<subseteq> ?four
               \<and> list_all is_str (map snd kvs)))"
  proof (rule impI)
    assume decoded: "loads reply = Inr (PDict kvs)"
    have four: "set required_fields = ?four"
      by (simp add: required_fields_def)
    have missing: "set (missing_fields kvs) = ?four - fst ` set kvs"
      unfolding missing_fields_def set_filter four by blast
    have parsed: "parse loads reply =
        (map (\<lambda>f. Say (f @ '' is not in result'')) (missing_fields kvs),
         Inr (PDict (kvs @ ?added)))"
      using decoded by (rule parse_object)
    have added_keys: "fst ` set ?added = set (missing_fields kvs)"
      by (simp add: image_image)
    have keys: "fst ` set (kvs @ ?added) = fst ` set kvs \<union> ?four"
      unfolding set_append image_Un added_keys missing by blast
    have lookup: "\<forall>k. map_of (kvs @ ?added) k =
        (if k \<in> ?four \<and> k \<notin> fst ` set kvs then Some (PStr ''na'') else map_of kvs k)"
    proof
      fix k
      show "map_of (kvs @ ?added) k =
        (if k \<in> ?four \<and> k \<notin> fst ` set kvs then Some (PStr ''na'') else map_of kvs k)"
      proof (cases "k \<in> set (missing_fields kvs)")
        case True
        then have cond: "k \<in> ?four \<and> k \<notin> fst ` set kvs" unfolding missing by blast
        then have "map_of kvs k = None" by (simp only: map_of_eq_None_iff not_False_eq_True)
        moreover have "map_of ?added k = Some (PStr ''na'')"
          using True by (simp add: map_of_map_restrict)
        ultimately have "map_of (kvs @ ?added) k = Some (PStr ''na'')"
          by (simp add: map_add_def)
        then show ?thesis using cond by simp
      next
        case False
        then have cond: "\<not> (k \<in> ?four \<and> k \<notin> fst ` set kvs)" unfolding missing by blast
        from False have "map_of ?added k = None"
          by (simp add: map_of_map_restrict)
        then have "map_of (kvs @ ?added) k = map_of kvs k"
          by (simp add: map_add_def split: option.splits)
        then show ?thesis using cond by auto
      qed
    qed
    have distinct_missing: "distinct (missing_fields kvs)"
      by (simp add: missing_fields_def distinct_required)
    have disjoint: "set (missing_fields kvs) \<inter> fst ` set kvs = {}"
      unfolding missing by blast
    have distinct_keys: "distinct (map fst (kvs @ ?added)) \<longleftrightarrow> distinct (map fst kvs)"
      using distinct_missing disjoint by (simp add: comp_def Int_commute)
    have strings: "list_all is_str (map snd (kvs @ ?added)) \<longleftrightarrow> list_all is_str (map snd kvs)"
      by (auto simp: list_all_iff)
    have only_four: "set (map fst (kvs @ ?added)) = ?four \<longleftrightarrow> fst ` set kvs \<subseteq> ?four"
      unfolding set_map keys by blast
    have exact: "structured_summary (Inr (PDict (kvs @ ?added))) \<longleftrightarrow>
        distinct (map fst kvs) \<and> fst ` set kvs \<subseteq> ?four \<and> list_all is_str (map snd kvs)"
      unfolding structured_summary.simps distinct_keys strings only_four ..
    show "\<exists>out kvs'.
         parse loads reply = (out, Inr (PDict kvs'))
         \<and> fst ` set kvs' = fst ` set kvs \<union> ?four
         \<and> (\<forall>k. map_of kvs' k =
                   (if k \<in> ?four \<and> k \<notin> fst ` set kvs then Some (PStr ''na'') else map_of kvs k))
         \<and> (structured_summary (Inr (PDict kvs')) \<longleftrightarrow>
               distinct (map fst kvs) \<and> fst ` set kvs \<subseteq> ?four
               \<and> list_all is_str (map snd kvs))"
      using parsed keys lookup exact by (intro exI conjI)
  qed
qed

text \<open>
  A reply in prose gives the record of four \<open>'na'\<close>. The reply
  \<open>{"topic": 1, "x": 2}\<close> is an object: the number stays the value of \<open>topic\<close>,
  \<open>entities\<close> is filled with \<open>'na'\<close>, and the result is not a record of exactly four
  string-valued fields.
\<close>

theorem parse_returns_required_fields_witness:
  "json_loads ''Sorry, I cannot help with that.'' = Inl JSONDecodeError
   \<and> parse json_loads ''Sorry, I cannot help with that.'' =
        ([], Inr (PDict [(''topic'', PStr ''na''), (''entities'', PStr ''na''),
                         (''summary'', PStr ''na''), (''timeline'', PStr ''na'')]))
   \<and> structured_summary (snd (parse json_loads ''Sorry, I cannot help with that.''))
   \<and> json_loads ''{\"topic\": 1, \"x\": 2}'' = Inr (PDict [(''topic'', PInt 1), (''x'', PInt 2)])
   \<and> (\<exists>out kvs'.
         parse json_loads ''{\"topic\": 1, \"x\": 2}'' = (out, Inr (PDict kvs'))
         \<and> map_of kvs' ''topic'' = Some (PInt 1)
         \<and> map_of kvs' ''x'' = Some (PInt 2)
         \<and> map_of kvs' ''entities'' = Some (PStr ''na'')
         \<and> \<not> structured_summary (Inr (PDict kvs')))"
proof -
  let ?prose = "''Sorry, I cannot help with that.''"
  let ?reply = "''{\"topic\": 1, \"x\": 2}''"
  let ?kvs = "[(''topic'', PInt 1), (''x'', PInt 2)]"
  have rejected: "json_loads ?prose = Inl JSONDecodeError"
    by code_simp
  have decoded: "json_loads ?reply = Inr (PDict ?kvs)"
    by code_simp
  have soft: "parse json_loads ?prose =
        ([], Inr (PDict [(''topic'', PStr ''na''), (''entities'', PStr ''na''),
                         (''summary'', PStr ''na''), (''timeline'', PStr ''na'')]))
      \<and> structured_summary (snd (parse json_loads ?prose))"
    using parse_returns_required_fields [of json_loads ?prose "[]", THEN conjunct1] rejected
    by (rule mp)
  have "\<exists>out kvs'.
         parse json_loads ?reply = (out, Inr (PDict kvs'))
         \<and> fst ` set kvs' = fst ` set ?kvs \<union> {''topic'', ''entities'', ''summary'', ''timeline''}
         \<and> (\<forall>k. map_of kvs' k =
                   (if k \<in> {''topic'', ''entities'', ''summary'', ''timeline''}
                         \<and> k \<notin> fst ` set ?kvs
                    then Some (PStr ''na'') else map_of ?kvs k))
         \<and> (structured_summary (Inr (PDict kvs')) \<longleftrightarrow>
               distinct (map fst ?kvs)
               \<and> fst ` set ?kvs \<subseteq> {''topic'', ''entities'', ''summary'', ''timeline''}
               \<and> list_all is_str (map snd ?kvs))"
    using parse_returns_required_fields [of json_loads ?reply ?kvs, THEN conjunct2] decoded
    by (rule mp)
  then obtain out kvs' where
    parsed: "parse json_loads ?reply = (out, Inr (PDict kvs'))" and
    lookup: "\<forall>k. map_of kvs' k =
                   (if k \<in> {''topic'', ''entities'', ''summary'', ''timeline''}
                         \<and> k \<notin> fst ` set ?kvs
                    then Some (PStr ''na'') else map_of ?kvs k)" and
    exact: "structured_summary (Inr (PDict kvs')) \<longleftrightarrow>
               distinct (map fst ?kvs)
               \<and> fst ` set ?kvs \<subseteq> {''topic'', ''entities'', ''summary'', ''timeline''}
               \<and> list_all is_str (map snd ?kvs)"
    by (elim exE conjE)
  have topic: "map_of kvs' ''topic'' = Some (PInt 1)"
    using lookup [THEN spec, of "''topic''"] by simp
  have extra: "map_of kvs' ''x'' = Some (PInt 2)"
    using lookup [THEN spec, of "''x''"] by simp
  have entities: "map_of kvs' ''entities'' = Some (PStr ''na'')"
    using lookup [THEN spec, of "''entities''"] by simp
  have not_exact: "\<not> structured_summary (Inr (PDict kvs'))"
    unfolding exact by simp
  have object: "\<exists>out kvs'.
         parse json_loads ?reply = (out, Inr (PDict kvs'))
         \<and> map_of kvs' ''topic'' = Some (PInt 1)
         \<and> map_of kvs' ''x'' = Some (PInt 2)
         \<and> map_of kvs' ''entities'' = Some (PStr ''na'')
         \<and> \<not> structured_summary (Inr (PDict kvs'))"
    using parsed topic extra entities not_exact by (intro exI conjI)
  show ?thesis
    by (intro conjI) (rule rejected soft [THEN conjunct1] soft [THEN conjunct2] decoded object)+
qed

text \<open>
  The reply \<open>{"topic": 1, "x": 2}\<close>: \<open>parse\<close> returns five entries, and the value of
  the required field \<open>topic\<close> is the number 1.
\<close>

theorem parse_not_four_strings:
  "parse json_loads ''{\"topic\": 1, \"x\": 2}'' =
     ([Say ''entities is not in result'', Say ''summary is not in result'',
       Say ''timeline is not in result''],
      Inr (PDict [(''topic'', PInt 1), (''x'', PInt 2), (''entities'', PStr ''na''),
                  (''summary'', PStr ''na''), (''timeline'', PStr ''na'')]))
   \<and> \<not> structured_summary (snd (parse json_loads ''{\"topic\": 1, \"x\": 2}''))"
  by code_simp

text \<open>
  Claim C4. When the reply decodes to an object that has the four required keys,
  \<open>parse\<close> returns exactly the decoded object and prints nothing; so for an object
  with \<open>topic\<close> X, \<open>entities\<close> Y, \<open>summary\<close> Z and \<open>timeline\<close> W the result has
  exactly these values.
\<close>

theorem parse_well_formed_unchanged:
  "loads reply = Inr (PDict kvs) \<Longrightarrow> set required_fields \<subseteq> fst ` set kvs \<Longrightarrow>
   parse loads reply = ([], Inr (PDict kvs))"
proof -
  assume decoded: "loads reply = Inr (PDict kvs)"
    and present: "set required_fields \<subseteq> fst ` set kvs"
  have "missing_fields kvs = []"
    using present by (auto simp: missing_fields_def filter_empty_conv)
  then show ?thesis using parse_object [of loads reply kvs] decoded by simp
qed

theorem parse_well_formed_unchanged_witness:
  "parse json_loads
     ''{\"topic\":\"X\",\"entities\":\"Y\",\"summary\":\"Z\",\"timeline\":\"W\"}''
   = ([], Inr (PDict [(''topic'', PStr ''X''), (''entities'', PStr ''Y''),
                      (''summary'', PStr ''Z''), (''timeline'', PStr ''W'')]))"
proof -
  have decoded:
    "json_loads ''{\"topic\":\"X\",\"entities\":\"Y\",\"summary\":\"Z\",\"timeline\":\"W\"}''
     = Inr (PDict [(''topic'', PStr ''X''), (''entities'', PStr ''Y''),
                   (''summary'', PStr ''Z''), (''timeline'', PStr ''W'')])"
    by code_simp
  have present:
    "set required_fields \<subseteq> fst ` set [(''topic'', PStr ''X''), (''entities'', PStr ''Y''),
                                        (''summary'', PStr ''Z''), (''timeline'', PStr ''W'')]"
    by (simp add: required_fields_def)
  show ?thesis
    using parse_well_formed_unchanged [of json_loads _ _, OF decoded present] .
qed

text \<open>
  Claim C5. When the reply decodes to an object, \<open>parse\<close> prints, for each required
  key the object lacks, the message naming that key, and returns the object's entries
  as they were decoded, whatever their values are, followed by one entry \<open>'na'\<close> for
  each key it lacks: looking a key up in the result gives \<open>'na'\<close> for a required key
  the object lacks and the decoded value for every other key. For an object that lacks
  only \<open>entities\<close> the result has \<open>entities\<close> equal to \<open>'na'\<close> and the other three
  fields as decoded (the witness).
\<close>

theorem parse_fills_missing_fields:
  assumes "loads reply = Inr (PDict kvs)"
  shows "\<exists>kvs'. parse loads reply =
                  (map (\<lambda>f. Say (f @ '' is not in result'')) (missing_fields kvs),
                   Inr (PDict kvs'))
               \<and> kvs' = kvs @ map (\<lambda>f. (f, PStr ''na'')) (missing_fields kvs)
               \<and> (\<forall>k. map_of kvs' k =
                         (if k \<in> set (missing_fields kvs) then Some (PStr ''na'')
                          else map_of kvs k))"
proof -
  let ?added = "map (\<lambda>f. (f, PStr ''na'')) (missing_fields kvs)"
  have lookup: "map_of (kvs @ ?added) k =
                  (if k \<in> set (missing_fields kvs) then Some (PStr ''na'') else map_of kvs k)"
    for k
  proof (cases "k \<in> set (missing_fields kvs)")
    case True
    then have "k \<notin> fst ` set kvs" by (simp add: missing_fields_def)
    then have "map_of kvs k = None" by (simp add: map_of_eq_None_iff)
    moreover have "map_of ?added k = Some (PStr ''na'')"
      using True by (simp add: map_of_map_restrict)
    ultimately show ?thesis using True by (simp add: map_add_def)
  next
    case False
    then have "map_of ?added k = None"
      by (simp add: map_of_map_restrict)
    then show ?thesis using False by (simp add: map_add_def split: option.splits)
  qed
  show ?thesis
    using parse_object [of loads reply kvs] assms lookup by simp
qed

theorem parse_fills_missing_fields_witness:
  "parse json_loads ''{\"topic\":\"X\",\"summary\":7,\"timeline\":\"W\"}''
   = ([Say ''entities is not in result''],
      Inr (PDict [(''topic'', PStr ''X''), (''summary'', PInt 7), (''timeline'', PStr ''W''),
                  (''entities'', PStr ''na'')]))
   \<and> map_of [(''topic'', PStr ''X''), (''summary'', PInt 7), (''timeline'', PStr ''W''),
              (''entities'', PStr ''na'')] ''entities'' = Some (PStr ''na'')"
proof -
  let ?kvs = "[(''topic'', PStr ''X''), (''summary'', PInt 7), (''timeline'', PStr ''W'')]"
  have decoded:
    "json_loads ''{\"topic\":\"X\",\"summary\":7,\"timeline\":\"W\"}'' = Inr (PDict ?kvs)"
    by code_simp
  have missing: "missing_fields ?kvs = [''entities'']"
    by (simp add: missing_fields_def required_fields_def)
  show ?thesis
    using parse_fills_missing_fields [of json_loads _ ?kvs, OF decoded] missing by simp
qed

text \<open>
  Claim C6. The claim: a reply that cannot be read as an object gives the record of
  four \<open>'na'\<close> and no error. The code does so when the decoder raises
  \<open>JSONDecodeError\<close> (\<open>parse_decode_error\<close>), and not when the reply is well-formed
  JSON for something else. Here the reply is a list holding one object: the loop
  prints the message for \<open>topic\<close>, the assignment raises \<open>TypeError\<close>, and the handler
  does not catch it.
\<close>

theorem parse_list_reply_raises:
  "parse json_loads ''[{\"topic\": \"X\"}]'' = ([Say ''topic is not in result''], Inl TypeError)"
  by code_simp

section \<open>Claims about the pipeline\<close>

text \<open>
  Claim C2, as amended. The claim reads: when the fetched list is empty the run ends
  early, reports that no articles were found and writes no document.
  \<open>run_pipeline\<close> has no such exit. What holds: with an empty fetched list, and
  whatever the fetcher has reported, the run goes on as any other run does: it
  deduplicates the empty list, invokes the model on it and, when the model replies
  with an object, the template renders, the file can be opened and the write
  succeeds, writes the rendered document to the output path and returns the path.
  \<open>run_pipeline\<close> itself prints its usual progress messages and the messages of the
  validator, around what the fetcher printed.
\<close>

theorem run_pipeline_empty_fetch:
  assumes "get_cnn_news_with_content w topic = Inr []"
    and "build_chain w = None"
    and "invoke_model w topic [] = Inr reply"
    and "json_library w reply = Inr (PDict kvs)"
    and "read_template w = Inr template_str"
    and "parse_template w template_str = None"
    and "render_template w template_str (field_value kvs ''topic'')
           (field_value kvs ''summary'') (field_value kvs ''entities'')
           (field_value kvs ''timeline'') [] (clock w) = Inr html_content"
    and "open_file w output_file = None"
    and "write_file w output_file html_content = None"
  shows "run_pipeline w topic output_file files =
           ([Topic_begin topic, Step_fetch, Cnn_begin] @ cnn_printed w topic
              @ [Cnn_count 0, Step_dedup, Step_extract]
              @ map (\<lambda>f. Say (f @ '' is not in result'')) (missing_fields kvs)
              @ [Step_html, Finished output_file],
            files(output_file \<mapsto> html_content), Inr output_file)"
  using run_pipeline_reaches_write [OF assms(1-8), of files] assms(9) by simp

text \<open>
  The fetcher finds nothing for \<open>obscure-topic-x\<close> and says so; the model replies
  with an object that has two of the four fields.
\<close>

theorem run_pipeline_empty_fetch_witness:
  "run_pipeline
     (example_world (Inr []) (Inr ''{\"topic\": \"obscure-topic-x\", \"summary\": \"none\"}''))
     ''obscure-topic-x'' ''news_summary.html'' Map.empty
   = ([Topic_begin ''obscure-topic-x'', Step_fetch, Cnn_begin, No_news_found ''CNN'',
       Cnn_count 0, Step_dedup, Step_extract, Say ''entities is not in result'',
       Say ''timeline is not in result'', Step_html, Finished ''news_summary.html''],
      [''news_summary.html'' \<mapsto> ''<html></html>''], Inr ''news_summary.html'')"
proof -
  let ?reply = "''{\"topic\": \"obscure-topic-x\", \"summary\": \"none\"}''"
  let ?w = "example_world (Inr []) (Inr ?reply)"
  let ?kvs = "[(''topic'', PStr ''obscure-topic-x''), (''summary'', PStr ''none'')]"
  have decoded: "json_library ?w ?reply = Inr (PDict ?kvs)"
    unfolding example_world_def by code_simp
  have missing: "missing_fields ?kvs = [''entities'', ''timeline'']"
    by (simp add: missing_fields_def required_fields_def)
  have said: "cnn_printed ?w ''obscure-topic-x'' = [No_news_found ''CNN'']"
    by (simp add: example_world_def)
  have "run_pipeline ?w ''obscure-topic-x'' ''news_summary.html'' Map.empty =
      ([Topic_begin ''obscure-topic-x'', Step_fetch, Cnn_begin]
         @ cnn_printed ?w ''obscure-topic-x''
         @ [Cnn_count 0, Step_dedup, Step_extract]
         @ map (\<lambda>f. Say (f @ '' is not in result'')) (missing_fields ?kvs)
         @ [Step_html, Finished ''news_summary.html''],
       [''news_summary.html'' \<mapsto> ''<html></html>''], Inr ''news_summary.html'')"
    by (rule run_pipeline_empty_fetch [where reply = ?reply and template_str = "''<html></html>''"])
       (simp_all add: decoded, simp_all add: example_world_def)
  then show ?thesis unfolding said missing by simp
qed

text \<open>
  The fetcher answers with the empty list for \<open>obscure-topic-x\<close> and reports that it
  has found nothing, the model replies with a summary: the run goes through all its
  steps, returns the path, and afterwards the output file exists.
\<close>

theorem run_pipeline_empty_fetch_writes_file:
  "fst (run_pipeline
       (example_world (Inr [])
          (Inr ''{\"topic\": \"obscure-topic-x\", \"entities\": \"none\", \"summary\": \"none\", \"timeline\": \"none\"}''))
       ''obscure-topic-x'' ''news_summary.html'' Map.empty)
     = [Topic_begin ''obscure-topic-x'', Step_fetch, Cnn_begin, No_news_found ''CNN'',
        Cnn_count 0, Step_dedup, Step_extract, Step_html, Finished ''news_summary.html'']
   \<and> snd (snd (run_pipeline
       (example_world (Inr [])
          (Inr ''{\"topic\": \"obscure-topic-x\", \"entities\": \"none\", \"summary\": \"none\", \"timeline\": \"none\"}''))
       ''obscure-topic-x'' ''news_summary.html'' Map.empty)) = Inr ''news_summary.html''
   \<and> fst (snd (run_pipeline
       (example_world (Inr [])
          (Inr ''{\"topic\": \"obscure-topic-x\", \"entities\": \"none\", \"summary\": \"none\", \"timeline\": \"none\"}''))
       ''obscure-topic-x'' ''news_summary.html'' Map.empty)) ''news_summary.html''
     = Some ''<html></html>''"
  by code_simp

text \<open>
  Claim C8. When the model invocation raises, the run prints the error, goes on to
  \<open>generate_html\<close> with \<open>None\<close> in place of the summary, which raises, and so ends
  with an exception: the files on disk are as before, and no document is written.
\<close>

theorem run_pipeline_model_failure:
  assumes "get_cnn_news_with_content w topic = Inr news_data"
    and "build_chain w = None"
    and "invoke_model w topic (deduplicate_news news_data) = Inl e"
  shows "\<exists>err. run_pipeline w topic output_file files =
           ([Topic_begin topic, Step_fetch, Cnn_begin] @ cnn_printed w topic
              @ [Cnn_count (length news_data), Step_dedup, Step_extract, Error_report e,
                 Step_html],
            files, Inl err)"
proof -
  have fetched:
    "fetch_news_data w topic =
       ([Cnn_begin] @ cnn_printed w topic @ [Cnn_count (length news_data)], Inr news_data)"
    using assms(1) by (simp add: fetch_news_data_def)
  have extracted: "extract_entities_and_summary w topic (deduplicate_news news_data) =
      ([Error_report e], Inr PNone)"
    using assms(2,3) by (simp add: extract_entities_and_summary_def)
  have "\<exists>err. generate_html w PNone (deduplicate_news news_data) = Inl err"
    by (simp add: generate_html_def split: sum.splits option.splits)
  then obtain err where html: "generate_html w PNone (deduplicate_news news_data) = Inl err" ..
  show ?thesis
    unfolding run_pipeline_def
    using fetched extracted html by simp
qed

theorem run_pipeline_model_failure_witness:
  "\<exists>err. run_pipeline (example_world (Inr sample_news) (Inl (Failure ''APIConnectionError'')))
       ''league of legends'' ''test1.html'' Map.empty
     = ([Topic_begin ''league of legends'', Step_fetch, Cnn_begin, Cnn_count 3, Step_dedup,
         Step_extract, Error_report (Failure ''APIConnectionError''), Step_html],
        Map.empty, Inl err)"
proof -
  let ?w = "example_world (Inr sample_news) (Inl (Failure ''APIConnectionError''))"
  have three: "length sample_news = 3"
    by (simp add: sample_news_def)
  have fetched: "get_cnn_news_with_content ?w ''league of legends'' = Inr sample_news"
    by (simp add: example_world_def)
  have chain: "build_chain ?w = None"
    by (simp add: example_world_def)
  have failed: "invoke_model ?w ''league of legends'' (deduplicate_news sample_news)
                  = Inl (Failure ''APIConnectionError'')"
    by (simp add: example_world_def)
  have quiet: "cnn_printed ?w ''league of legends'' = []"
    by (simp add: example_world_def sample_news_def)
  from run_pipeline_model_failure [OF fetched chain failed, of "''test1.html''" Map.empty]
  show ?thesis unfolding quiet three by simp
qed

section \<open>Claims about the AP News fetcher\<close>

text \<open>
  Claim C9. The claim: the fetcher never lets an exception reach its caller. Here
  the search page cannot be loaded and the browser raises \<open>TimeoutException\<close>:
  \<open>get_ap_news_with_content\<close> raises it too.
\<close>

theorem get_ap_news_with_content_raises:
  "get_ap_news_with_content (example_web (Inl (Failure ''TimeoutException''))) ''OpenAI''
     max_articles_count
   = Inl (Failure ''TimeoutException'')"
  by (simp add: get_ap_news_with_content_def get_ap_news_list_selenium_def example_web_def)

text \<open>
  Claim C10. Every record of a list that \<open>get_ap_news_with_content\<close> returns has a
  non-empty \<open>content\<close> and the \<open>source\<close> \<open>AP News\<close> (it has the five fields of an
  article by its type), and the list has at most \<open>max_articles\<close> records, for every
  limit that is a number of articles (20 unless the caller gives another). With a
  negative \<open>max_articles\<close> the list is empty.
\<close>

theorem get_ap_news_with_content_records:
  assumes "get_ap_news_with_content w topic max_articles = Inr detailed"
  shows "(\<forall>a \<in> set detailed. content a \<noteq> [] \<and> source a = ''AP News'')
         \<and> (0 \<le> max_articles \<longrightarrow> int (length detailed) \<le> max_articles)
         \<and> (max_articles < 0 \<longrightarrow> detailed = [])"
proof -
  from assms obtain news_list where
    listed: "get_ap_news_list_selenium w topic max_articles = Inr news_list" and
    result: "detailed = (if news_list = [] then [] else fetch_details w news_list [])"
    by (auto simp: get_ap_news_with_content_def split: sum.splits if_splits)
  have records: "\<forall>a \<in> set detailed. content a \<noteq> [] \<and> source a = ''AP News''"
    using result fetch_details_records [of _ w news_list "[]"] by (auto split: if_splits)
  have short: "length detailed \<le> length news_list"
    using result fetch_details_length [of w news_list "[]"] by (simp split: if_splits)
  have "int (length news_list) \<le> max_articles" if "0 \<le> max_articles"
  proof -
    from listed obtain cards where "collect_cards cards [] max_articles = Inr news_list"
      by (auto simp: get_ap_news_list_selenium_def split: option.splits sum.splits)
    then show ?thesis
      using collect_cards_bound [of cards "[]" max_articles news_list] that by simp
  qed
  moreover have "detailed = []" if "max_articles < 0"
  proof -
    from listed obtain cards where "collect_cards cards [] max_articles = Inr news_list"
      by (auto simp: get_ap_news_list_selenium_def split: option.splits sum.splits)
    then have "news_list = []"
      using collect_cards_no_room [of max_articles cards] that by simp
    then show ?thesis using result by simp
  qed
  ultimately show ?thesis using short records by auto
qed

text \<open>
  The five sample cards and a limit of two: the first and the third card are taken, the
  third has no story body, one record comes back.
\<close>

theorem get_ap_news_with_content_records_witness:
  "get_ap_news_with_content (example_web (Inr sample_cards)) ''OpenAI'' 2 = Inr [alpha_record]
   \<and> content alpha_record \<noteq> []
   \<and> source alpha_record = ''AP News''
   \<and> int (length [alpha_record]) \<le> 2"
proof -
  have run: "get_ap_news_with_content (example_web (Inr sample_cards)) ''OpenAI'' 2
               = Inr [alpha_record]"
    by (simp add: get_ap_news_with_content_def get_ap_news_list_selenium_def example_web_def
                  get_ap_article_content_def replace_Z_def sample_cards_def alpha_record_def)
  from get_ap_news_with_content_records [OF run] run show ?thesis by simp
qed

end
